theory Spec2Isabelle
  imports Main "HOL-Library.Word"
begin

unbundle bit_operations_syntax

section \<open>ISO-8859-7 byte classification (src/enc/iso_8859_7.c)\<close>

subsection \<open>Data\<close>

text \<open>
  An \<open>unsigned char\<close> is an 8-bit word. The same type stands for the byte stored in a
  plain \<open>char\<close> object: the accessors receive a \<open>const char *\<close> and read one byte
  through it, so their argument here is the byte that the pointer refers to.
\<close>

type_synonym uchar = "8 word"

text \<open>
  The table \<open>yp_encoding_iso_8859_7_table[256]\<close>, row by row as in the source. The
  entries are the source's binary literals: \<open>0b000 = 0\<close>, \<open>0b010 = 2\<close>,
  \<open>0b011 = 3\<close> and \<open>0b111 = 7\<close>.
\<close>

definition yp_encoding_iso_8859_7_table :: "uchar list" where
  "yp_encoding_iso_8859_7_table =
    [0b000, 0b000, 0b000, 0b000, 0b000, 0b000, 0b000, 0b000, 0b000, 0b000, 0b000, 0b000, 0b000, 0b000, 0b000, 0b000, \<comment> \<open>0x\<close>
     0b000, 0b000, 0b000, 0b000, 0b000, 0b000, 0b000, 0b000, 0b000, 0b000, 0b000, 0b000, 0b000, 0b000, 0b000, 0b000, \<comment> \<open>1x\<close>
     0b000, 0b000, 0b000, 0b000, 0b000, 0b000, 0b000, 0b000, 0b000, 0b000, 0b000, 0b000, 0b000, 0b000, 0b000, 0b000, \<comment> \<open>2x\<close>
     0b010, 0b010, 0b010, 0b010, 0b010, 0b010, 0b010, 0b010, 0b010, 0b010, 0b000, 0b000, 0b000, 0b000, 0b000, 0b000, \<comment> \<open>3x\<close>
     0b000, 0b111, 0b111, 0b111, 0b111, 0b111, 0b111, 0b111, 0b111, 0b111, 0b111, 0b111, 0b111, 0b111, 0b111, 0b111, \<comment> \<open>4x\<close>
     0b111, 0b111, 0b111, 0b111, 0b111, 0b111, 0b111, 0b111, 0b111, 0b111, 0b111, 0b000, 0b000, 0b000, 0b000, 0b000, \<comment> \<open>5x\<close>
     0b000, 0b011, 0b011, 0b011, 0b011, 0b011, 0b011, 0b011, 0b011, 0b011, 0b011, 0b011, 0b011, 0b011, 0b011, 0b011, \<comment> \<open>6x\<close>
     0b011, 0b011, 0b011, 0b011, 0b011, 0b011, 0b011, 0b011, 0b011, 0b011, 0b011, 0b000, 0b000, 0b000, 0b000, 0b000, \<comment> \<open>7x\<close>
     0b000, 0b000, 0b000, 0b000, 0b000, 0b000, 0b000, 0b000, 0b000, 0b000, 0b000, 0b000, 0b000, 0b000, 0b000, 0b000, \<comment> \<open>8x\<close>
     0b000, 0b000, 0b000, 0b000, 0b000, 0b000, 0b000, 0b000, 0b000, 0b000, 0b000, 0b000, 0b000, 0b000, 0b000, 0b000, \<comment> \<open>9x\<close>
     0b000, 0b000, 0b000, 0b000, 0b000, 0b000, 0b000, 0b000, 0b000, 0b000, 0b000, 0b000, 0b000, 0b000, 0b000, 0b000, \<comment> \<open>Ax\<close>
     0b000, 0b000, 0b000, 0b000, 0b000, 0b000, 0b111, 0b000, 0b111, 0b111, 0b111, 0b000, 0b111, 0b000, 0b111, 0b111, \<comment> \<open>Bx\<close>
     0b011, 0b111, 0b111, 0b111, 0b111, 0b111, 0b111, 0b111, 0b111, 0b111, 0b111, 0b111, 0b111, 0b111, 0b111, 0b111, \<comment> \<open>Cx\<close>
     0b111, 0b111, 0b000, 0b111, 0b111, 0b111, 0b111, 0b111, 0b111, 0b111, 0b111, 0b111, 0b011, 0b011, 0b011, 0b011, \<comment> \<open>Dx\<close>
     0b011, 0b011, 0b011, 0b011, 0b011, 0b011, 0b011, 0b011, 0b011, 0b011, 0b011, 0b011, 0b011, 0b011, 0b011, 0b011, \<comment> \<open>Ex\<close>
     0b011, 0b011, 0b011, 0b011, 0b011, 0b011, 0b011, 0b011, 0b011, 0b011, 0b011, 0b011, 0b011, 0b011, 0b011, 0b000] \<comment> \<open>Fx\<close>"

text \<open>
  Modelled from the spec: the three flag masks \<open>YP_ENCODING_ALPHABETIC_BIT\<close>,
  \<open>YP_ENCODING_ALPHANUMERIC_BIT\<close> and \<open>YP_ENCODING_UPPERCASE_BIT\<close> are macros of
  \<open>yp_encoding.h\<close>, which is not among the sources. The specification names the three
  flags of an entry in the order alphabetic, alphanumeric, uppercase and fixes their
  positions through the table: the digits (entries \<open>0b010\<close>) carry the alphanumeric flag
  only, the lowercase Latin letters (entries \<open>0b011\<close>) carry alphabetic and alphanumeric
  but not uppercase, and the uppercase Latin letters (entries \<open>0b111\<close>) carry all three.
  So the masks are bit 0, bit 1 and bit 2. They are \<open>int\<close> constants in C, written here
  as shifts of 1.
\<close>

definition YP_ENCODING_ALPHABETIC_BIT :: int where
  "YP_ENCODING_ALPHABETIC_BIT = push_bit 0 1"

definition YP_ENCODING_ALPHANUMERIC_BIT :: int where
  "YP_ENCODING_ALPHANUMERIC_BIT = push_bit 1 1"

definition YP_ENCODING_UPPERCASE_BIT :: int where
  "YP_ENCODING_UPPERCASE_BIT = push_bit 2 1"

subsection \<open>Reading the byte and indexing the table\<close>

text \<open>
  \<open>const unsigned char v = *c;\<close> reads a plain \<open>char\<close> and converts its value to
  \<open>unsigned char\<close>. Where \<open>char\<close> is signed, the bytes 0x80 to 0xFF have the values
  -128 to -1; the conversion to \<open>unsigned char\<close> reduces the value modulo 256.
\<close>

definition char_value :: "uchar \<Rightarrow> int" where
  "char_value c = sint c"

definition to_unsigned_char :: "int \<Rightarrow> uchar" where
  "to_unsigned_char x = word_of_int x"

text \<open>
  \<open>yp_encoding_iso_8859_7_table[v]\<close>: the index is the value of \<open>v\<close> as an
  integer. A C array read has no check; an index outside the 256 entries is an
  out-of-bounds read. The model makes that a value, \<open>None\<close>.
\<close>

definition table_read :: "int \<Rightarrow> uchar option" where
  "table_read i =
    (if 0 \<le> i \<and> i < int (length yp_encoding_iso_8859_7_table)
     then Some (yp_encoding_iso_8859_7_table ! nat i)
     else None)"

subsection \<open>The four accessors\<close>

text \<open>
  \<open>size_t\<close> results are natural numbers (only 0 and 1 occur). In
  \<open>table[v] & MASK\<close> the entry is promoted to \<open>int\<close> before the bitwise and; the
  conditional operator tests the result against zero.
\<close>

definition yp_encoding_iso_8859_7_char_width :: "uchar \<Rightarrow> nat" where
  "yp_encoding_iso_8859_7_char_width c = 1"

definition yp_encoding_iso_8859_7_alpha_char :: "uchar \<Rightarrow> nat option" where
  "yp_encoding_iso_8859_7_alpha_char c =
    (let v = to_unsigned_char (char_value c) in
     case table_read (uint v) of
       None \<Rightarrow> None
     | Some e \<Rightarrow> Some (if uint e AND YP_ENCODING_ALPHABETIC_BIT \<noteq> 0 then 1 else 0))"

definition yp_encoding_iso_8859_7_alnum_char :: "uchar \<Rightarrow> nat option" where
  "yp_encoding_iso_8859_7_alnum_char c =
    (let v = to_unsigned_char (char_value c) in
     case table_read (uint v) of
       None \<Rightarrow> None
     | Some e \<Rightarrow> Some (if uint e AND YP_ENCODING_ALPHANUMERIC_BIT \<noteq> 0 then 1 else 0))"

definition yp_encoding_iso_8859_7_isupper_char :: "uchar \<Rightarrow> bool option" where
  "yp_encoding_iso_8859_7_isupper_char c =
    (let v = to_unsigned_char (char_value c) in
     case table_read (uint v) of
       None \<Rightarrow> None
     | Some e \<Rightarrow> Some (if uint e AND YP_ENCODING_UPPERCASE_BIT \<noteq> 0 then True else False))"

section \<open>Basic facts about the table and the byte read\<close>

lemma table_length: "length yp_encoding_iso_8859_7_table = 256"
  by (simp add: yp_encoding_iso_8859_7_table_def)

lemma uchar_index_bound: "unat (v :: uchar) < 256"
  using unsigned_less [of v, where 'a = nat] by simp

lemma uchar_value_bound: "uint (v :: uchar) < 256"
  using unsigned_less [of v, where 'a = int] by simp

lemma read_byte_unsigned: "to_unsigned_char (char_value c) = c"
  by (simp add: to_unsigned_char_def char_value_def)

text \<open>
  Where plain \<open>char\<close> is unsigned its value is \<open>uint c\<close>, and the conversion gives
  the same byte.
\<close>

lemma read_byte_unsigned_plain: "to_unsigned_char (uint c) = c"
  by (simp add: to_unsigned_char_def)

lemma table_read_defined:
  "table_read (uint (v :: uchar)) = Some (yp_encoding_iso_8859_7_table ! unat v)"
  by (simp add: table_read_def table_length uchar_value_bound)

text \<open>
  The conversion to \<open>unsigned char\<close> matters: indexing with the value of a signed
  \<open>char\<close> would leave the table for the byte 0x80.
\<close>

lemma signed_index_out_of_bounds: "table_read (char_value 0x80) = None"
  by (simp add: table_read_def char_value_def)

lemma table_entries: "set yp_encoding_iso_8859_7_table \<subseteq> {0, 2, 3, 7}"
  by (simp add: yp_encoding_iso_8859_7_table_def)

lemma table_entry_cases:
  "yp_encoding_iso_8859_7_table ! unat (v :: uchar) \<in> {0, 2, 3, 7}"
proof -
  have "unat v < length yp_encoding_iso_8859_7_table"
    by (simp add: table_length uchar_index_bound)
  then have "yp_encoding_iso_8859_7_table ! unat v \<in> set yp_encoding_iso_8859_7_table"
    by (rule nth_mem)
  with table_entries show ?thesis by blast
qed

text \<open>Each accessor, reduced to a test on the table entry of its byte.\<close>

lemma alpha_char_entry:
  "yp_encoding_iso_8859_7_alpha_char c =
    Some (if uint (yp_encoding_iso_8859_7_table ! unat c) AND 1 \<noteq> 0 then 1 else 0)"
  by (simp add: yp_encoding_iso_8859_7_alpha_char_def read_byte_unsigned
      table_read_defined YP_ENCODING_ALPHABETIC_BIT_def)

lemma alnum_char_entry:
  "yp_encoding_iso_8859_7_alnum_char c =
    Some (if uint (yp_encoding_iso_8859_7_table ! unat c) AND 2 \<noteq> 0 then 1 else 0)"
  by (simp add: yp_encoding_iso_8859_7_alnum_char_def read_byte_unsigned
      table_read_defined YP_ENCODING_ALPHANUMERIC_BIT_def)

lemma isupper_char_entry:
  "yp_encoding_iso_8859_7_isupper_char c =
    Some (uint (yp_encoding_iso_8859_7_table ! unat c) AND 4 \<noteq> 0)"
  by (simp add: yp_encoding_iso_8859_7_isupper_char_def read_byte_unsigned
      table_read_defined YP_ENCODING_UPPERCASE_BIT_def)

text \<open>The result of the three accessors for each of the four entry values of the table.\<close>

lemma flags_of_entry:
  assumes "yp_encoding_iso_8859_7_table ! unat c = e"
  shows "e = 0 \<Longrightarrow> yp_encoding_iso_8859_7_alpha_char c = Some 0
            \<and> yp_encoding_iso_8859_7_alnum_char c = Some 0
            \<and> yp_encoding_iso_8859_7_isupper_char c = Some False"
    and "e = 2 \<Longrightarrow> yp_encoding_iso_8859_7_alpha_char c = Some 0
            \<and> yp_encoding_iso_8859_7_alnum_char c = Some 1
            \<and> yp_encoding_iso_8859_7_isupper_char c = Some False"
    and "e = 3 \<Longrightarrow> yp_encoding_iso_8859_7_alpha_char c = Some 1
            \<and> yp_encoding_iso_8859_7_alnum_char c = Some 1
            \<and> yp_encoding_iso_8859_7_isupper_char c = Some False"
    and "e = 7 \<Longrightarrow> yp_encoding_iso_8859_7_alpha_char c = Some 1
            \<and> yp_encoding_iso_8859_7_alnum_char c = Some 1
            \<and> yp_encoding_iso_8859_7_isupper_char c = Some True"
  using assms by (simp_all add: alpha_char_entry alnum_char_entry isupper_char_entry)

text \<open>A property of a segment of a list holds at every index of the segment.\<close>

lemma segment_nth:
  assumes "list_all P (take n (drop k xs))" and "k \<le> i" and "i < k + n"
    and "k + n \<le> length xs"
  shows "P (xs ! i)"
proof -
  from assms have len: "i - k < length (take n (drop k xs))" by simp
  from assms have "take n (drop k xs) ! (i - k) = xs ! i" by simp
  with assms(1) len show ?thesis by (metis list_all_length)
qed

lemma digit_entries:
  assumes "0x30 \<le> b" and "b \<le> (0x39 :: uchar)"
  shows "yp_encoding_iso_8859_7_table ! unat b = 0b010"
proof -
  have seg: "list_all (\<lambda>e. e = 0b010) (take 10 (drop 0x30 yp_encoding_iso_8859_7_table))"
    by (simp add: yp_encoding_iso_8859_7_table_def)
  from assms have "0x30 \<le> unat b" and "unat b < 0x30 + 10"
    by (simp_all add: word_le_nat_alt)
  with seg show ?thesis
    by (rule segment_nth) (simp add: table_length)
qed

lemma upper_latin_entries:
  assumes "0x41 \<le> b" and "b \<le> (0x5A :: uchar)"
  shows "yp_encoding_iso_8859_7_table ! unat b = 0b111"
proof -
  have seg: "list_all (\<lambda>e. e = 0b111) (take 26 (drop 0x41 yp_encoding_iso_8859_7_table))"
    by (simp add: yp_encoding_iso_8859_7_table_def)
  from assms have "0x41 \<le> unat b" and "unat b < 0x41 + 26"
    by (simp_all add: word_le_nat_alt)
  with seg show ?thesis
    by (rule segment_nth) (simp add: table_length)
qed

lemma lower_latin_entries:
  assumes "0x61 \<le> b" and "b \<le> (0x7A :: uchar)"
  shows "yp_encoding_iso_8859_7_table ! unat b = 0b011"
proof -
  have seg: "list_all (\<lambda>e. e = 0b011) (take 26 (drop 0x61 yp_encoding_iso_8859_7_table))"
    by (simp add: yp_encoding_iso_8859_7_table_def)
  from assms have "0x61 \<le> unat b" and "unat b < 0x61 + 26"
    by (simp_all add: word_le_nat_alt)
  with seg show ?thesis
    by (rule segment_nth) (simp add: table_length)
qed

section \<open>Character width\<close>

text \<open>
  C7. For every byte value, \<open>char_width\<close> returns exactly 1; the byte is not
  inspected and no precondition is placed on it.
\<close>

theorem char_width_always_one: "yp_encoding_iso_8859_7_char_width c = 1"
  by (simp add: yp_encoding_iso_8859_7_char_width_def)

section \<open>Invariants of the table\<close>

text \<open>
  C1. For every byte value \<open>b\<close>, if the alphabetic query returns true (1) then the
  alphanumeric query returns true (1) as well: on every entry of the table the
  alphabetic flag implies the alphanumeric flag.
\<close>

theorem alphabetic_implies_alphanumeric:
  assumes "yp_encoding_iso_8859_7_alpha_char b = Some 1"
  shows "yp_encoding_iso_8859_7_alnum_char b = Some 1"
proof -
  define e where "e = yp_encoding_iso_8859_7_table ! unat b"
  then have entry: "yp_encoding_iso_8859_7_table ! unat b = e" by simp
  from table_entry_cases [of b] e_def
  consider "e = 0" | "e = 2" | "e = 3" | "e = 7" by auto
  then show ?thesis
  proof cases
    case 1
    with flags_of_entry(1) [OF entry] assms show ?thesis by simp
  next
    case 2
    with flags_of_entry(2) [OF entry] show ?thesis by simp
  next
    case 3
    with flags_of_entry(3) [OF entry] show ?thesis by simp
  next
    case 4
    with flags_of_entry(4) [OF entry] show ?thesis by simp
  qed
qed

theorem alphabetic_implies_alphanumeric_witness:
  "yp_encoding_iso_8859_7_alpha_char 0x41 = Some 1 \<and> yp_encoding_iso_8859_7_alnum_char 0x41 = Some 1"
proof -
  have h: "yp_encoding_iso_8859_7_alpha_char 0x41 = Some 1"
    by (simp add: alpha_char_entry yp_encoding_iso_8859_7_table_def)
  from alphabetic_implies_alphanumeric [OF h] h show ?thesis by simp
qed

text \<open>
  C10. For every byte value \<open>b\<close>, if the uppercase query returns true then the
  alphabetic and the alphanumeric query both return true (1): no entry of the table has
  the uppercase flag without the other two.
\<close>

theorem uppercase_implies_letter:
  assumes "yp_encoding_iso_8859_7_isupper_char b = Some True"
  shows "yp_encoding_iso_8859_7_alpha_char b = Some 1 \<and> yp_encoding_iso_8859_7_alnum_char b = Some 1"
proof -
  define e where "e = yp_encoding_iso_8859_7_table ! unat b"
  then have entry: "yp_encoding_iso_8859_7_table ! unat b = e" by simp
  from table_entry_cases [of b] e_def
  consider "e = 0" | "e = 2" | "e = 3" | "e = 7" by auto
  then show ?thesis
  proof cases
    case 1
    with flags_of_entry(1) [OF entry] assms show ?thesis by simp
  next
    case 2
    with flags_of_entry(2) [OF entry] assms show ?thesis by simp
  next
    case 3
    with flags_of_entry(3) [OF entry] assms show ?thesis by simp
  next
    case 4
    with flags_of_entry(4) [OF entry] show ?thesis by simp
  qed
qed

theorem uppercase_implies_letter_witness:
  "yp_encoding_iso_8859_7_isupper_char 0x5A = Some True
    \<and> yp_encoding_iso_8859_7_alpha_char 0x5A = Some 1 \<and> yp_encoding_iso_8859_7_alnum_char 0x5A = Some 1"
proof -
  have h: "yp_encoding_iso_8859_7_isupper_char 0x5A = Some True"
    by (simp add: isupper_char_entry yp_encoding_iso_8859_7_table_def)
  from uppercase_implies_letter [OF h] h show ?thesis by simp
qed

section \<open>Totality of the lookups\<close>

text \<open>
  C9. The three classification queries are total over all 256 byte values. The table has
  256 entries; for every byte, also one whose value as a signed \<open>char\<close> is negative, the
  index computed from it is that value reduced modulo 256, lies from 0 to 255, the table
  read there is defined, and each query returns a result rather than the out-of-bounds
  outcome.
\<close>

theorem classification_total:
  "length yp_encoding_iso_8859_7_table = 256
    \<and> uint (to_unsigned_char (char_value c)) = char_value c mod 256
    \<and> 0 \<le> uint (to_unsigned_char (char_value c))
    \<and> uint (to_unsigned_char (char_value c)) < int (length yp_encoding_iso_8859_7_table)
    \<and> (\<exists>e. table_read (uint (to_unsigned_char (char_value c))) = Some e)
    \<and> (\<exists>r. yp_encoding_iso_8859_7_alpha_char c = Some r)
    \<and> (\<exists>r. yp_encoding_iso_8859_7_alnum_char c = Some r)
    \<and> (\<exists>r. yp_encoding_iso_8859_7_isupper_char c = Some r)"
proof -
  have idx: "uint (to_unsigned_char (char_value c)) = char_value c mod 256"
    by (simp add: to_unsigned_char_def uint_word_of_int)
  have lo: "0 \<le> uint (to_unsigned_char (char_value c))"
    by simp
  have hi: "uint (to_unsigned_char (char_value c)) < int (length yp_encoding_iso_8859_7_table)"
    by (simp add: table_length uchar_value_bound)
  have rd: "\<exists>e. table_read (uint (to_unsigned_char (char_value c))) = Some e"
    by (simp add: table_read_defined)
  have a: "\<exists>r. yp_encoding_iso_8859_7_alpha_char c = Some r"
    by (simp add: alpha_char_entry)
  have n: "\<exists>r. yp_encoding_iso_8859_7_alnum_char c = Some r"
    by (simp add: alnum_char_entry)
  have u: "\<exists>r. yp_encoding_iso_8859_7_isupper_char c = Some r"
    by (simp add: isupper_char_entry)
  from table_length idx lo hi rd a n u show ?thesis by blast
qed

section \<open>The ASCII part of the table\<close>

text \<open>
  C3. For every byte from 0x41 to 0x5A (uppercase Latin letters) the alphabetic, the
  alphanumeric and the uppercase query all return true; for every byte from 0x61 to 0x7A
  (lowercase Latin letters) the alphabetic and the alphanumeric query return true and
  the uppercase query returns false.
\<close>

theorem latin_letters:
  "(0x41 \<le> b \<and> b \<le> 0x5A \<longrightarrow>
      yp_encoding_iso_8859_7_alpha_char b = Some 1 \<and> yp_encoding_iso_8859_7_alnum_char b = Some 1 \<and> yp_encoding_iso_8859_7_isupper_char b = Some True)
    \<and> (0x61 \<le> b \<and> b \<le> 0x7A \<longrightarrow>
      yp_encoding_iso_8859_7_alpha_char b = Some 1 \<and> yp_encoding_iso_8859_7_alnum_char b = Some 1 \<and> yp_encoding_iso_8859_7_isupper_char b = Some False)"
proof -
  have upper: "yp_encoding_iso_8859_7_alpha_char b = Some 1 \<and> yp_encoding_iso_8859_7_alnum_char b = Some 1 \<and> yp_encoding_iso_8859_7_isupper_char b = Some True"
    if "0x41 \<le> b \<and> b \<le> 0x5A"
  proof -
    from that have "yp_encoding_iso_8859_7_table ! unat b = 0b111"
      by (simp add: upper_latin_entries)
    then show ?thesis
      by (rule flags_of_entry(4)) simp
  qed
  have lower: "yp_encoding_iso_8859_7_alpha_char b = Some 1 \<and> yp_encoding_iso_8859_7_alnum_char b = Some 1 \<and> yp_encoding_iso_8859_7_isupper_char b = Some False"
    if "0x61 \<le> b \<and> b \<le> 0x7A"
  proof -
    from that have "yp_encoding_iso_8859_7_table ! unat b = 0b011"
      by (simp add: lower_latin_entries)
    then show ?thesis
      by (rule flags_of_entry(3)) simp
  qed
  from upper lower show ?thesis by blast
qed

theorem latin_letters_witness:
  "((0x41 :: uchar) \<le> 0x4D \<and> (0x4D :: uchar) \<le> 0x5A)
    \<and> yp_encoding_iso_8859_7_alpha_char 0x4D = Some 1 \<and> yp_encoding_iso_8859_7_alnum_char 0x4D = Some 1 \<and> yp_encoding_iso_8859_7_isupper_char 0x4D = Some True
    \<and> ((0x61 :: uchar) \<le> 0x7A \<and> (0x7A :: uchar) \<le> 0x7A)
    \<and> yp_encoding_iso_8859_7_alpha_char 0x7A = Some 1 \<and> yp_encoding_iso_8859_7_alnum_char 0x7A = Some 1 \<and> yp_encoding_iso_8859_7_isupper_char 0x7A = Some False"
  using latin_letters [of "0x4D"] latin_letters [of "0x7A"] by simp

text \<open>
  C4. For every byte from 0x30 to 0x39 (ASCII digits) the alphanumeric query returns
  true and the alphabetic query returns false; for the byte 0x39 the uppercase query
  returns false as well.
\<close>

theorem ascii_digits:
  "(0x30 \<le> b \<and> b \<le> 0x39 \<longrightarrow>
      yp_encoding_iso_8859_7_alnum_char b = Some 1 \<and> yp_encoding_iso_8859_7_alpha_char b = Some 0)
    \<and> yp_encoding_iso_8859_7_isupper_char 0x39 = Some False"
proof -
  have digits: "yp_encoding_iso_8859_7_alnum_char b = Some 1 \<and> yp_encoding_iso_8859_7_alpha_char b = Some 0"
    if "0x30 \<le> b \<and> b \<le> 0x39"
  proof -
    from that have "yp_encoding_iso_8859_7_table ! unat b = 0b010"
      by (simp add: digit_entries)
    then have "yp_encoding_iso_8859_7_alpha_char b = Some 0 \<and> yp_encoding_iso_8859_7_alnum_char b = Some 1 \<and> yp_encoding_iso_8859_7_isupper_char b = Some False"
      by (rule flags_of_entry(2)) simp
    then show ?thesis by simp
  qed
  have nine: "yp_encoding_iso_8859_7_isupper_char 0x39 = Some False"
    by (simp add: isupper_char_entry yp_encoding_iso_8859_7_table_def)
  from digits nine show ?thesis by blast
qed

theorem ascii_digits_witness:
  "((0x30 :: uchar) \<le> 0x39 \<and> (0x39 :: uchar) \<le> 0x39)
    \<and> yp_encoding_iso_8859_7_alnum_char 0x39 = Some 1 \<and> yp_encoding_iso_8859_7_alpha_char 0x39 = Some 0 \<and> yp_encoding_iso_8859_7_isupper_char 0x39 = Some False"
  using ascii_digits [of "0x39"] by simp

text \<open>
  C8. For each of the bytes 0x00 (NUL), 0x20 (space), 0x7F (DEL) and 0x80 (outside the
  defined characters) the alphabetic, the alphanumeric and the uppercase query all
  return false.
\<close>

theorem unclassified_bytes:
  assumes "b \<in> {0x00, 0x20, 0x7F, 0x80}"
  shows "yp_encoding_iso_8859_7_alpha_char b = Some 0 \<and> yp_encoding_iso_8859_7_alnum_char b = Some 0 \<and> yp_encoding_iso_8859_7_isupper_char b = Some False"
proof -
  from assms have "yp_encoding_iso_8859_7_table ! unat b = 0b000"
    by (auto simp add: yp_encoding_iso_8859_7_table_def)
  then show ?thesis
    by (rule flags_of_entry(1)) simp
qed

theorem unclassified_bytes_witness:
  "(0x80 :: uchar) \<in> {0x00, 0x20, 0x7F, 0x80}
    \<and> yp_encoding_iso_8859_7_alpha_char 0x80 = Some 0 \<and> yp_encoding_iso_8859_7_alnum_char 0x80 = Some 0 \<and> yp_encoding_iso_8859_7_isupper_char 0x80 = Some False"
proof -
  have h: "(0x80 :: uchar) \<in> {0x00, 0x20, 0x7F, 0x80}" by simp
  from unclassified_bytes [OF h] h show ?thesis by simp
qed

section \<open>The Greek part of the table\<close>

text \<open>
  C5. For each of the bytes 0xB6, 0xB8, 0xB9, 0xBA, 0xBC, 0xBE and 0xBF (the accented
  uppercase Greek vowels) the alphabetic, the alphanumeric and the uppercase query all
  return true.
\<close>

theorem accented_uppercase_vowels:
  assumes "b \<in> {0xB6, 0xB8, 0xB9, 0xBA, 0xBC, 0xBE, 0xBF}"
  shows "yp_encoding_iso_8859_7_alpha_char b = Some 1 \<and> yp_encoding_iso_8859_7_alnum_char b = Some 1 \<and> yp_encoding_iso_8859_7_isupper_char b = Some True"
proof -
  from assms have "yp_encoding_iso_8859_7_table ! unat b = 0b111"
    by (auto simp add: yp_encoding_iso_8859_7_table_def)
  then show ?thesis
    by (rule flags_of_entry(4)) simp
qed

theorem accented_uppercase_vowels_witness:
  "(0xB6 :: uchar) \<in> {0xB6, 0xB8, 0xB9, 0xBA, 0xBC, 0xBE, 0xBF}
    \<and> yp_encoding_iso_8859_7_alpha_char 0xB6 = Some 1 \<and> yp_encoding_iso_8859_7_alnum_char 0xB6 = Some 1 \<and> yp_encoding_iso_8859_7_isupper_char 0xB6 = Some True"
proof -
  have h: "(0xB6 :: uchar) \<in> {0xB6, 0xB8, 0xB9, 0xBA, 0xBC, 0xBE, 0xBF}" by simp
  from accented_uppercase_vowels [OF h] h show ?thesis by simp
qed

text \<open>
  C6. For the byte 0xC1 (Greek capital alpha) the alphabetic, the alphanumeric and the
  uppercase query all return true.
\<close>

theorem greek_capital_alpha:
  "yp_encoding_iso_8859_7_alpha_char 0xC1 = Some 1 \<and> yp_encoding_iso_8859_7_alnum_char 0xC1 = Some 1 \<and> yp_encoding_iso_8859_7_isupper_char 0xC1 = Some True"
proof -
  have "yp_encoding_iso_8859_7_table ! unat (0xC1 :: uchar) = 0b111"
    by (simp add: yp_encoding_iso_8859_7_table_def)
  then show ?thesis
    by (rule flags_of_entry(4)) simp
qed

text \<open>
  C2, as the specification states it: for the byte 0xA1 the alphanumeric query returns
  true and the alphabetic query returns false. The table entry at 0xA1 is \<open>0b000\<close>, as
  is the whole row 0xA0 to 0xAF, so the alphanumeric query returns false there and the
  statement does not hold.
\<close>

theorem byte_A1_not_alphanumeric:
  "\<not> (yp_encoding_iso_8859_7_alnum_char 0xA1 = Some 1 \<and> yp_encoding_iso_8859_7_alpha_char 0xA1 = Some 0)"
  by (simp add: alnum_char_entry yp_encoding_iso_8859_7_table_def)

text \<open>
  C2, amended: for the byte 0xA1 the alphanumeric query returns false and the alphabetic
  query returns false; the entry carries no flag, so the uppercase query returns false
  too.
\<close>

theorem byte_A1_unclassified:
  "yp_encoding_iso_8859_7_alnum_char 0xA1 = Some 0 \<and> yp_encoding_iso_8859_7_alpha_char 0xA1 = Some 0 \<and> yp_encoding_iso_8859_7_isupper_char 0xA1 = Some False"
proof -
  have "yp_encoding_iso_8859_7_table ! unat (0xA1 :: uchar) = 0b000"
    by (simp add: yp_encoding_iso_8859_7_table_def)
  then show ?thesis
    using flags_of_entry(1) by blast
qed

end
